theory Spec2Isabelle
  imports Main "HOL-Library.AList"
begin

section \<open>Python string primitives used by the parser and the converter\<close>

text \<open>
  \<open>s[a:b]\<close> for indices that are known to be non-negative.  Python clamps both
  ends to the length of the string and returns the empty string when \<open>b \<le> a\<close>.
\<close>

definition slice :: "string \<Rightarrow> nat \<Rightarrow> nat \<Rightarrow> string" where
  "slice s a b = take (b - a) (drop a s)"

text \<open>\<open>sep.join(xs)\<close>.\<close>

fun py_join :: "string \<Rightarrow> string list \<Rightarrow> string" where
  "py_join sep [] = []"
| "py_join sep [x] = x"
| "py_join sep (x # y # ys) = x @ sep @ py_join sep (y # ys)"

section \<open>The parameter-list splitter (\<open>ThriftParser._split_fields_string\<close>)\<close>

text \<open>
  The body of the \<open>for i, char in enumerate(fields_string)\<close> loop.  The loop
  state is \<open>(field_strings, bracket_depth, last_index)\<close>; \<open>bracket_depth\<close> is a
  Python integer and may become negative.
\<close>

fun split_fields_step ::
  "string \<Rightarrow> nat \<Rightarrow> char \<Rightarrow> string list \<times> int \<times> nat \<Rightarrow> string list \<times> int \<times> nat" where
  "split_fields_step fields_string i c (field_strings, bracket_depth, last_index) =
     (if c = CHR ''<'' then (field_strings, bracket_depth + 1, last_index)
      else if c = CHR ''>'' then (field_strings, bracket_depth - 1, last_index)
      else if c = CHR '','' \<and> bracket_depth = 0
        then (field_strings @ [slice fields_string last_index i], bracket_depth, i + 1)
      else (field_strings, bracket_depth, last_index))"

text \<open>The loop itself: \<open>cs\<close> are the characters still to be visited, \<open>i\<close> the index of the first.\<close>

fun split_fields_loop ::
  "string \<Rightarrow> nat \<Rightarrow> string \<Rightarrow> string list \<times> int \<times> nat \<Rightarrow> string list \<times> int \<times> nat" where
  "split_fields_loop fields_string i [] st = st"
| "split_fields_loop fields_string i (c # cs) st =
     split_fields_loop fields_string (Suc i) cs (split_fields_step fields_string i c st)"

definition split_fields_string :: "string \<Rightarrow> string list" where
  "split_fields_string fields_string =
     (case split_fields_loop fields_string 0 fields_string ([], 0, 0) of
        (field_strings, bracket_depth, last_index) \<Rightarrow>
          field_strings @ [drop last_index fields_string])"


section \<open>Regular expressions as Python's \<open>re\<close> module runs them\<close>

text \<open>
  The five patterns of \<open>ThriftParser.__init__\<close> use literals, character classes,
  \<open>^\<close> under \<open>re.MULTILINE\<close>, alternation, optional groups, capturing groups and
  \<open>*\<close>, \<open>+\<close>, \<open>*?\<close> applied to a single character class.  The type below has
  exactly these constructs.
\<close>

datatype regex =
    Eps
  | Chr char
  | Str string
  | Cls "char \<Rightarrow> bool"
  | Bol
  | Seq regex regex
  | Alt regex regex
  | Opt regex
  | Star "char \<Rightarrow> bool"
  | Plus "char \<Rightarrow> bool"
  | LazyStar "char \<Rightarrow> bool"
  | Grp nat regex

text \<open>Captured groups, most recent capture first.\<close>

type_synonym caps = "(nat \<times> string) list"

text \<open>How many characters from position \<open>i\<close> on belong to the class \<open>P\<close>.\<close>

definition run :: "(char \<Rightarrow> bool) \<Rightarrow> string \<Rightarrow> nat \<Rightarrow> nat" where
  "run P s i = length (takeWhile P (drop i s))"

text \<open>
  \<open>rmatch r s (i, g)\<close> lists every way \<open>r\<close> can match \<open>s\<close> from position \<open>i\<close>, as
  the end position and the captures, in the order in which the backtracking matcher tries
  them: the left alternative before the right one, a greedy quantifier from its longest
  run down, a lazy one from its shortest run up, an optional part taken before skipped.
\<close>

fun rmatch :: "regex \<Rightarrow> string \<Rightarrow> nat \<times> caps \<Rightarrow> (nat \<times> caps) list" where
  "rmatch Eps s st = [st]"
| "rmatch (Chr c) s (i, g) = (if i < length s \<and> s ! i = c then [(Suc i, g)] else [])"
| "rmatch (Str w) s (i, g) =
     (if take (length w) (drop i s) = w then [(i + length w, g)] else [])"
| "rmatch (Cls P) s (i, g) = (if i < length s \<and> P (s ! i) then [(Suc i, g)] else [])"
| "rmatch Bol s (i, g) = (if i = 0 \<or> s ! (i - 1) = CHR 0x0A then [(i, g)] else [])"
| "rmatch (Seq r1 r2) s st = concat (map (rmatch r2 s) (rmatch r1 s st))"
| "rmatch (Alt r1 r2) s st = rmatch r1 s st @ rmatch r2 s st"
| "rmatch (Opt r) s st = rmatch r s st @ [st]"
| "rmatch (Star P) s (i, g) = map (\<lambda>k. (i + k, g)) (rev [0..<Suc (run P s i)])"
| "rmatch (Plus P) s (i, g) = map (\<lambda>k. (i + k, g)) (rev [1..<Suc (run P s i)])"
| "rmatch (LazyStar P) s (i, g) = map (\<lambda>k. (i + k, g)) [0..<Suc (run P s i)]"
| "rmatch (Grp n r) s (i, g) =
     map (\<lambda>(j, g'). (j, (n, slice s i j) # g')) (rmatch r s (i, g))"

text \<open>A sequence of parts, written as a list.\<close>

definition seq :: "regex list \<Rightarrow> regex" where
  "seq rs = foldr Seq rs Eps"

text \<open>
  \<open>pattern.findall(s)\<close>: scan from the left; at each start position take the first way
  the pattern matches; continue after the match (one further when the match is empty).
  The result keeps the captures of each match.
\<close>

function findall_from :: "regex \<Rightarrow> string \<Rightarrow> nat \<Rightarrow> caps list" where
  "findall_from r s p =
     (if length s < p then []
      else (case rmatch r s (p, []) of
              [] \<Rightarrow> findall_from r s (Suc p)
            | (e, g) # _ \<Rightarrow> g # findall_from r s (if p < e then e else Suc p)))"
  by pat_completeness auto
termination
  by (relation "measure (\<lambda>(r, s, p). Suc (length s) - p)") auto

definition findall :: "regex \<Rightarrow> string \<Rightarrow> caps list" where
  "findall r s = findall_from r s 0"

text \<open>The text of group \<open>n\<close> as \<open>findall\<close> reports it: empty when the group did not take part.\<close>

definition group :: "caps \<Rightarrow> nat \<Rightarrow> string" where
  "group g n = (case map_of g n of None \<Rightarrow> [] | Some x \<Rightarrow> x)"

subsection \<open>Character classes\<close>

definition is_digit :: "char \<Rightarrow> bool" where
  "is_digit c = (c \<in> set ''0123456789'')"

definition is_word :: "char \<Rightarrow> bool" where
  "is_word c =
     (c \<in> set ''abcdefghijklmnopqrstuvwxyzABCDEFGHIJKLMNOPQRSTUVWXYZ0123456789_'')"

definition is_space :: "char \<Rightarrow> bool" where
  "is_space c = (c \<in> set [CHR '' '', CHR 0x09, CHR 0x0A, CHR 0x0D, CHR 0x0C, CHR 0x0B])"

text \<open>\<open>[\r\t ]\<close>\<close>

definition is_indent :: "char \<Rightarrow> bool" where
  "is_indent c = (c \<in> set [CHR 0x0D, CHR 0x09, CHR '' ''])"

text \<open>\<open>[a-zA-Z0-9: ,<>]\<close>\<close>

definition is_param_char :: "char \<Rightarrow> bool" where
  "is_param_char c =
     (c \<in> set ''abcdefghijklmnopqrstuvwxyzABCDEFGHIJKLMNOPQRSTUVWXYZ0123456789: ,<>'')"

subsection \<open>The patterns of \<open>ThriftParser.__init__\<close>\<close>

text \<open>\<^verbatim>\<open>^([\r\t ]*?struct (\w+)[^}]+})\<close>\<close>

definition structs_regex :: regex where
  "structs_regex =
     seq [Bol, Grp 1 (seq [LazyStar is_indent, Str ''struct '', Grp 2 (Plus is_word),
                           Plus (\<lambda>c. c \<noteq> CHR ''}''), Chr CHR ''}''])]"

text \<open>\<^verbatim>\<open>^([\r\t ]*?service (\w+)[^}]+})\<close>\<close>

definition services_regex :: regex where
  "services_regex =
     seq [Bol, Grp 1 (seq [LazyStar is_indent, Str ''service '', Grp 2 (Plus is_word),
                           Plus (\<lambda>c. c \<noteq> CHR ''}''), Chr CHR ''}''])]"

text \<open>\<^verbatim>\<open>^[\r\t ]*?enum (\w+)[^}]+}\<close>\<close>

definition enums_regex :: regex where
  "enums_regex =
     seq [Bol, LazyStar is_indent, Str ''enum '', Grp 1 (Plus is_word),
          Plus (\<lambda>c. c \<noteq> CHR ''}''), Chr CHR ''}'']"

text \<open>\<^verbatim>\<open>^[\r\t ]*(oneway)?\s*([^\n]*)\s+(\w+)\(([a-zA-Z0-9: ,<>]*)\)\<close>\<close>

definition endpoints_regex :: regex where
  "endpoints_regex =
     seq [Bol, Star is_indent, Opt (Grp 1 (Str ''oneway'')), Star is_space,
          Grp 2 (Star (\<lambda>c. c \<noteq> CHR 0x0A)), Plus is_space, Grp 3 (Plus is_word),
          Chr CHR ''('', Grp 4 (Star is_param_char), Chr CHR '')'']"

text \<open>
  \<^verbatim>\<open>^[\r\t ]*([\d+]):\s*(optional|required)?\s*([^\n=]+)?\s+(\w+)(?:\s*=\s*([^,\s]+))?[,|\n]\<close>

  Group 1 is the character class \<^verbatim>\<open>[\d+]\<close>: one character, a digit or a plus sign.
\<close>

definition fields_regex :: regex where
  "fields_regex =
     seq [Bol, Star is_indent, Grp 1 (Cls (\<lambda>c. is_digit c \<or> c = CHR ''+'')), Chr CHR '':'',
          Star is_space, Opt (Grp 2 (Alt (Str ''optional'') (Str ''required''))),
          Star is_space, Opt (Grp 3 (Plus (\<lambda>c. c \<noteq> CHR 0x0A \<and> c \<noteq> CHR ''=''))),
          Plus is_space, Grp 4 (Plus is_word),
          Opt (seq [Star is_space, Chr CHR ''='', Star is_space,
                    Grp 5 (Plus (\<lambda>c. c \<noteq> CHR '','' \<and> \<not> is_space c))]),
          Cls (\<lambda>c. c = CHR '','' \<or> c = CHR ''|'' \<or> c = CHR 0x0A)]"


section \<open>Errors and dictionaries\<close>

text \<open>The exceptions that the modelled code can raise.\<close>

datatype py_error = ValueError | KeyError string | AttributeError

text \<open>
  A dictionary is an association list with distinct keys.  \<open>d[k] = v\<close> overwrites the
  value of a key already present and appends a new key otherwise, so a comprehension over
  a list keeps the last value of a repeated key.
\<close>

definition dict_of :: "('k \<times> 'v) list \<Rightarrow> ('k \<times> 'v) list" where
  "dict_of kvs = foldl (\<lambda>d (k, v). AList.update k v d) [] kvs"

text \<open>\<open>d[k]\<close>, which raises \<open>KeyError(k)\<close> for a missing key.\<close>

definition dict_get :: "(string \<times> 'v) list \<Rightarrow> string \<Rightarrow> py_error + 'v" where
  "dict_get d k = (case map_of d k of None \<Rightarrow> Inl (KeyError k) | Some v \<Rightarrow> Inr v)"

text \<open>Evaluating a list of computations in order; the first one that raises ends it.\<close>

fun sequence :: "('e + 'a) list \<Rightarrow> 'e + 'a list" where
  "sequence [] = Inr []"
| "sequence (Inl e # xs) = Inl e"
| "sequence (Inr x # xs) = (case sequence xs of Inl e \<Rightarrow> Inl e | Inr ys \<Rightarrow> Inr (x # ys))"

section \<open>The parsed model\<close>

text \<open>
  The classes \<open>ThriftStruct\<close>, \<open>ThriftStruct.Field\<close>, \<open>ThriftService\<close> and
  \<open>ThriftService.Endpoint\<close> are plain holders of their constructor arguments; each record
  below has one field per argument that the parser passes.
\<close>

record Field =
  f_index :: string
  f_field_type :: string
  f_name :: string
  f_oneway :: bool
  f_default :: "string option"

record ThriftStruct =
  s_name :: string
  s_fields :: "(string \<times> Field) list"

record Endpoint =
  e_return_type :: string
  e_name :: string
  e_fields :: "(string \<times> Field) list"
  e_oneway :: string

record ThriftService =
  v_name :: string
  v_endpoints :: "(string \<times> Endpoint) list"

record Result =
  structs :: "(string \<times> ThriftStruct) list"
  services :: "(string \<times> ThriftService) list"
  enums :: "string set"

section \<open>\<open>ThriftParser\<close>\<close>

text \<open>
  \<open>_construct_field_from_field_match\<close>.  The second component of the match is the text
  of group 2 of \<open>fields_regex\<close>; the source binds it to the name \<open>oneway\<close> and compares
  it with the string \<open>'oneway'\<close>.
\<close>

definition construct_field_from_field_match ::
  "string \<times> string \<times> string \<times> string \<times> string \<Rightarrow> Field" where
  "construct_field_from_field_match field_match =
     (case field_match of (index, oneway, return_type, name, default_text) \<Rightarrow>
        \<lparr>f_index = index, f_field_type = return_type, f_name = name,
         f_oneway = (oneway = ''oneway''),
         f_default = (if length default_text \<noteq> 0 then Some default_text else None)\<rparr>)"

text \<open>\<open>self.fields_regex.findall(text)\<close>: a list of 5-tuples.\<close>

definition fields_findall :: "string \<Rightarrow> (string \<times> string \<times> string \<times> string \<times> string) list" where
  "fields_findall text =
     map (\<lambda>g. (group g 1, group g 2, group g 3, group g 4, group g 5)) (findall fields_regex text)"

definition parse_fields_from_struct_definition :: "string \<Rightarrow> (string \<times> Field) list" where
  "parse_fields_from_struct_definition definition =
     (let field_matches = fields_findall definition;
          fields = map construct_field_from_field_match field_matches
      in dict_of (map (\<lambda>field. (f_name field, field)) fields))"

definition parse_fields_from_fields_string :: "string \<Rightarrow> Field list" where
  "parse_fields_from_fields_string fields_string =
     (let field_strings = split_fields_string fields_string;
          field_matches = map (\<lambda>field_string. fields_findall (field_string @ [CHR 0x0A])) field_strings;
          field_matches = map hd (filter (\<lambda>field_match. length field_match \<noteq> 0) field_matches)
      in map construct_field_from_field_match field_matches)"

text \<open>\<open>self.structs_regex.findall(content)\<close> and its siblings.\<close>

definition structs_findall :: "string \<Rightarrow> (string \<times> string) list" where
  "structs_findall text = map (\<lambda>g. (group g 1, group g 2)) (findall structs_regex text)"

definition services_findall :: "string \<Rightarrow> (string \<times> string) list" where
  "services_findall text = map (\<lambda>g. (group g 1, group g 2)) (findall services_regex text)"

definition enums_findall :: "string \<Rightarrow> string list" where
  "enums_findall text = map (\<lambda>g. group g 1) (findall enums_regex text)"

definition endpoints_findall :: "string \<Rightarrow> (string \<times> string \<times> string \<times> string) list" where
  "endpoints_findall text =
     map (\<lambda>g. (group g 1, group g 2, group g 3, group g 4)) (findall endpoints_regex text)"

definition parse_struct_definitions :: "string \<Rightarrow> (string \<times> string) list" where
  "parse_struct_definitions thrift_content =
     dict_of (map (\<lambda>(definition, name). (name, definition)) (structs_findall thrift_content))"

definition parse_structs :: "string \<Rightarrow> (string \<times> ThriftStruct) list" where
  "parse_structs thrift_content =
     (let definitions_by_name = parse_struct_definitions thrift_content;
          fields_by_name = dict_of (map (\<lambda>(name, definition).
              (name, parse_fields_from_struct_definition definition)) definitions_by_name)
      in dict_of (map (\<lambda>(name, fields). (name, \<lparr>s_name = name, s_fields = fields\<rparr>))
                      fields_by_name))"

text \<open>
  \<open>_parse_endpoints_from_service_definition\<close>.  \<open>zip(*endpoint_matches)\<close> has four
  components when there is at least one match and none when there is no match; unpacking
  it into four names raises \<open>ValueError\<close> in the second case.
\<close>

definition parse_endpoints_from_service_definition ::
  "string \<Rightarrow> py_error + (string \<times> Endpoint) list" where
  "parse_endpoints_from_service_definition definition =
     (let endpoint_matches = endpoints_findall definition
      in if endpoint_matches = [] then Inl ValueError
         else
           (let oneways = map (\<lambda>(a, b, c, d). a) endpoint_matches;
                return_types = map (\<lambda>(a, b, c, d). b) endpoint_matches;
                names = map (\<lambda>(a, b, c, d). c) endpoint_matches;
                fields_strings = map (\<lambda>(a, b, c, d). d) endpoint_matches;
                fields_lists = map parse_fields_from_fields_string fields_strings;
                fields_dicts = map (\<lambda>field_list.
                    dict_of (map (\<lambda>field. (f_name field, field)) field_list)) fields_lists;
                endpoints = map (\<lambda>(oneway, return_type, name, fields).
                    \<lparr>e_return_type = return_type, e_name = name, e_fields = fields,
                     e_oneway = oneway\<rparr>)
                  (zip oneways (zip return_types (zip names fields_dicts)))
            in Inr (dict_of (map (\<lambda>endpoint. (e_name endpoint, endpoint)) endpoints))))"

definition parse_service_definitions :: "string \<Rightarrow> (string \<times> string) list" where
  "parse_service_definitions thrift_content =
     dict_of (map (\<lambda>(definition, name). (name, definition)) (services_findall thrift_content))"

definition parse_services :: "string \<Rightarrow> py_error + (string \<times> ThriftService) list" where
  "parse_services thrift_content =
     (let definitions_by_name = parse_service_definitions thrift_content
      in case sequence (map (\<lambda>(name, definition).
                case parse_endpoints_from_service_definition definition of
                  Inl e \<Rightarrow> Inl e
                | Inr endpoints \<Rightarrow> Inr (name, endpoints)) definitions_by_name) of
           Inl e \<Rightarrow> Inl e
         | Inr endpoints_by_name \<Rightarrow>
             Inr (dict_of (map (\<lambda>(name, endpoints).
                    (name, \<lparr>v_name = name, v_endpoints = endpoints\<rparr>))
                  (dict_of endpoints_by_name))))"

definition parse_enums :: "string \<Rightarrow> string set" where
  "parse_enums thrift_content = set (enums_findall thrift_content)"

text \<open>
  \<open>parse\<close>, from the text that \<open>_load_file\<close> has read.  The arguments of
  \<open>ThriftParser.Result(...)\<close> are evaluated from left to right; the value returned is the
  one stored in \<open>self._result\<close>.
\<close>

definition parse :: "string \<Rightarrow> py_error + Result" where
  "parse thrift_content =
     (let the_structs = parse_structs thrift_content
      in case parse_services thrift_content of
           Inl e \<Rightarrow> Inl e
         | Inr the_services \<Rightarrow>
             Inr \<lparr>structs = the_structs, services = the_services,
                  enums = parse_enums thrift_content\<rparr>)"

text \<open>
  The lookups read \<open>self._result\<close>, which is \<open>None\<close> until \<open>parse\<close> has returned;
  an attribute of \<open>None\<close> raises \<open>AttributeError\<close>.
\<close>

definition get_fields_for_endpoint ::
  "Result option \<Rightarrow> string \<Rightarrow> string \<Rightarrow> py_error + (string \<times> Field) list" where
  "get_fields_for_endpoint result service_name method_name =
     (case result of
        None \<Rightarrow> Inl AttributeError
      | Some r \<Rightarrow>
          (case dict_get (services r) service_name of
             Inl e \<Rightarrow> Inl e
           | Inr service \<Rightarrow>
               (case dict_get (v_endpoints service) method_name of
                  Inl e \<Rightarrow> Inl e
                | Inr endpoint \<Rightarrow> Inr (e_fields endpoint))))"

definition get_fields_for_struct_name ::
  "Result option \<Rightarrow> string \<Rightarrow> py_error + (string \<times> Field) list" where
  "get_fields_for_struct_name result struct_name =
     (case result of
        None \<Rightarrow> Inl AttributeError
      | Some r \<Rightarrow>
          (case dict_get (structs r) struct_name of
             Inl e \<Rightarrow> Inl e
           | Inr struct \<Rightarrow> Inr (s_fields struct)))"

definition has_struct :: "Result option \<Rightarrow> string \<Rightarrow> py_error + bool" where
  "has_struct result struct_name =
     (case result of None \<Rightarrow> Inl AttributeError
      | Some r \<Rightarrow> Inr (struct_name \<in> fst ` set (structs r)))"

definition has_enum :: "Result option \<Rightarrow> string \<Rightarrow> py_error + bool" where
  "has_enum result enum_name =
     (case result of None \<Rightarrow> Inl AttributeError
      | Some r \<Rightarrow> Inr (enum_name \<in> enums r))"


section \<open>More string primitives, for the request body converter\<close>

text \<open>The position of the first and of the last occurrence of a character.\<close>

fun index_of :: "char \<Rightarrow> string \<Rightarrow> nat option" where
  "index_of c [] = None"
| "index_of c (x # xs) = (if x = c then Some 0 else map_option Suc (index_of c xs))"

fun rindex_of :: "char \<Rightarrow> string \<Rightarrow> nat option" where
  "rindex_of c [] = None"
| "rindex_of c (x # xs) =
     (case rindex_of c xs of
        Some k \<Rightarrow> Some (Suc k)
      | None \<Rightarrow> if x = c then Some 0 else None)"

text \<open>\<open>s.index(c)\<close> and \<open>s.rindex(c)\<close> raise \<open>ValueError\<close> when \<open>c\<close> does not occur.\<close>

definition str_index :: "string \<Rightarrow> char \<Rightarrow> py_error + nat" where
  "str_index s c = (case index_of c s of None \<Rightarrow> Inl ValueError | Some k \<Rightarrow> Inr k)"

definition str_rindex :: "string \<Rightarrow> char \<Rightarrow> py_error + nat" where
  "str_rindex s c = (case rindex_of c s of None \<Rightarrow> Inl ValueError | Some k \<Rightarrow> Inr k)"

text \<open>
  A slice bound as Python reads it for a string of length \<open>n\<close>: a negative bound counts
  from the end, and the result is clamped to \<open>0..n\<close>.
\<close>

definition py_bound :: "nat \<Rightarrow> int \<Rightarrow> nat" where
  "py_bound n i = (if i < 0 then nat (int n + i) else min n (nat i))"

text \<open>\<open>s[a:b]\<close> for arbitrary integer bounds.\<close>

definition py_slice :: "string \<Rightarrow> int \<Rightarrow> int \<Rightarrow> string" where
  "py_slice s a b = slice s (py_bound (length s) a) (py_bound (length s) b)"

text \<open>\<open>s.find(c)\<close> and \<open>s.find(c, 0, e)\<close> return \<open>-1\<close> when \<open>c\<close> does not occur.\<close>

definition str_find :: "string \<Rightarrow> char \<Rightarrow> int" where
  "str_find s c = (case index_of c s of None \<Rightarrow> - 1 | Some k \<Rightarrow> int k)"

definition str_find_upto :: "string \<Rightarrow> char \<Rightarrow> int \<Rightarrow> int" where
  "str_find_upto s c e = str_find (py_slice s 0 e) c"

section \<open>The request body converter\<close>

text \<open>
  What \<open>json.loads\<close> returns.  The converter passes these values on untouched; the
  decoder itself belongs to the Python library and is a parameter \<open>loads\<close> of the
  model, \<open>None\<close> standing for the \<open>ValueError\<close> it raises on text that is not JSON.
\<close>

text \<open>A Python float: the finite value \<open>m * 2 ^ e\<close>, an infinity, or not-a-number.\<close>

datatype py_float = Finite int int | PosInf | NegInf | NaN

datatype json =
    JNull
  | JBool bool
  | JInt int
  | JFloat py_float
  | JStr string
  | JList "json list"
  | JDict "(string \<times> json) list"

text \<open>A converted value: raw text, a decoded JSON value, or a nested argument dictionary.\<close>

datatype py_value =
    PyStr string
  | PyJson json
  | PyDict "(string \<times> py_value) list"

text \<open>
  Modelled from the spec: \<open>ThriftParser.split_fields_string(text, opening, closing,
  delimiter)\<close>, which \<open>convert\<close> calls as \<open>split_fields_string(request_body, '([', '])',
  ',')\<close> and whose module is not among the sources.  The spec describes it as the
  splitter above "generalized to track depth across \<open>(\<close>/\<open>)\<close> and \<open>[\<close>/\<open>]\<close> pairs jointly
  (entering either increments depth, leaving either decrements it); a comma is a
  separator only at depth zero".
\<close>

fun ThriftParser_split_fields_step ::
  "string \<Rightarrow> string \<Rightarrow> string \<Rightarrow> char \<Rightarrow> nat \<Rightarrow> char \<Rightarrow>
   string list \<times> int \<times> nat \<Rightarrow> string list \<times> int \<times> nat" where
  "ThriftParser_split_fields_step fields_string opening closing delimiter i c
       (field_strings, depth, last_index) =
     (if c \<in> set opening then (field_strings, depth + 1, last_index)
      else if c \<in> set closing then (field_strings, depth - 1, last_index)
      else if c = delimiter \<and> depth = 0
        then (field_strings @ [slice fields_string last_index i], depth, i + 1)
      else (field_strings, depth, last_index))"

fun ThriftParser_split_fields_loop ::
  "string \<Rightarrow> string \<Rightarrow> string \<Rightarrow> char \<Rightarrow> nat \<Rightarrow> string \<Rightarrow>
   string list \<times> int \<times> nat \<Rightarrow> string list \<times> int \<times> nat" where
  "ThriftParser_split_fields_loop fields_string opening closing delimiter i [] st = st"
| "ThriftParser_split_fields_loop fields_string opening closing delimiter i (c # cs) st =
     ThriftParser_split_fields_loop fields_string opening closing delimiter (Suc i) cs
       (ThriftParser_split_fields_step fields_string opening closing delimiter i c st)"

definition ThriftParser_split_fields_string ::
  "string \<Rightarrow> string \<Rightarrow> string \<Rightarrow> char \<Rightarrow> string list" where
  "ThriftParser_split_fields_string fields_string opening closing delimiter =
     (case ThriftParser_split_fields_loop fields_string opening closing delimiter 0
             fields_string ([], 0, 0) of
        (field_strings, depth, last_index) \<Rightarrow>
          field_strings @ [drop last_index fields_string])"

text \<open>
  \<open>_clean\<close>.  Each of \<open>index\<close> and \<open>rindex\<close> may raise \<open>ValueError\<close>, which the
  \<open>except\<close> clause turns into returning the text unchanged.
\<close>

definition clean :: "string \<Rightarrow> string" where
  "clean request_body =
     (case str_index request_body CHR '':'' of
        Inl e \<Rightarrow> request_body
      | Inr colon_index \<Rightarrow>
          (case str_index request_body CHR ''('' of
             Inl e \<Rightarrow> request_body
           | Inr open_paren_index \<Rightarrow>
               if open_paren_index < colon_index
               then (case str_rindex request_body CHR '')'' of
                       Inl e \<Rightarrow> request_body
                     | Inr close_paren_index \<Rightarrow>
                         slice request_body (open_paren_index + 1) close_paren_index)
               else request_body))"

text \<open>\<open>_get_key\<close>; both positions are \<open>-1\<close> when the character is missing.\<close>

definition get_key :: "string \<Rightarrow> string" where
  "get_key field_string =
     (let colon_index = str_find field_string CHR '':'';
          open_paren_index = str_find_upto field_string CHR ''('' colon_index
      in py_slice field_string (open_paren_index + 1) colon_index)"

text \<open>The inner \<open>try\<close> of \<open>_convert_value_string\<close>: JSON if it decodes, the raw text otherwise.\<close>

definition loads_or_raw :: "(string \<Rightarrow> json option) \<Rightarrow> string \<Rightarrow> py_value" where
  "loads_or_raw loads value_string =
     (case loads value_string of Some j \<Rightarrow> PyJson j | None \<Rightarrow> PyStr value_string)"


text \<open>
  \<open>convert\<close>, \<open>_convert_from_field_strings\<close>, \<open>_get_value\<close> and
  \<open>_convert_value_string\<close> call one another.  In \<open>_convert_value_string\<close> the call of
  \<open>convert\<close> stands inside the \<open>try\<close> block, after \<open>value_string\<close> has been
  replaced by the text between the parentheses: a \<open>ValueError\<close> from the nested
  conversion is caught there and the replaced text goes to \<open>json.loads\<close>.
\<close>

function convert :: "(string \<Rightarrow> json option) \<Rightarrow> string \<Rightarrow> py_error + (string \<times> py_value) list"
  and convert_from_field_strings ::
    "(string \<Rightarrow> json option) \<Rightarrow> string list \<Rightarrow> py_error + (string \<times> py_value) list"
  and get_value :: "(string \<Rightarrow> json option) \<Rightarrow> string \<Rightarrow> py_error + py_value"
  and convert_value_string :: "(string \<Rightarrow> json option) \<Rightarrow> string \<Rightarrow> py_error + py_value"
where
  "convert loads request_body =
     convert_from_field_strings loads
       (ThriftParser_split_fields_string (clean request_body) ''(['' ''])'' CHR '','')"
| "convert_from_field_strings loads field_strings =
     (case sequence (map (\<lambda>field_string.
               case get_value loads field_string of
                 Inl e \<Rightarrow> Inl e
               | Inr v \<Rightarrow> Inr (get_key field_string, v)) field_strings) of
        Inl e \<Rightarrow> Inl e
      | Inr items \<Rightarrow> Inr (dict_of items))"
| "get_value loads field_string =
     (case str_index field_string CHR '':'' of
        Inl e \<Rightarrow> Inl e
      | Inr colon_index \<Rightarrow>
          convert_value_string loads (drop (colon_index + 1) field_string))"
| "convert_value_string loads value_string =
     (case str_index value_string CHR ''('' of
        Inl ValueError \<Rightarrow> Inr (loads_or_raw loads value_string)
      | Inl e \<Rightarrow> Inl e
      | Inr open_paren_index \<Rightarrow>
          (case str_rindex value_string CHR '')'' of
             Inl ValueError \<Rightarrow> Inr (loads_or_raw loads value_string)
           | Inl e \<Rightarrow> Inl e
           | Inr close_paren_index \<Rightarrow>
               (case convert loads (slice value_string (open_paren_index + 1) close_paren_index) of
                  Inl ValueError \<Rightarrow>
                    Inr (loads_or_raw loads
                           (slice value_string (open_paren_index + 1) close_paren_index))
                | Inl e \<Rightarrow> Inl e
                | Inr d \<Rightarrow> Inr (PyDict d))))"
  by pat_completeness auto


text \<open>
  Every nested call works on a strictly shorter text: the pieces of a split are together
  no longer than the text split, a value is what follows the colon of its field, and the
  nested literal lies between two parentheses of the value.
\<close>

termination convert
proof (relation "measure (\<lambda>x. case x of
       Inl (Inl (loads, s)) \<Rightarrow> 4 * (length s + 1) + 1
     | Inl (Inr (loads, fs)) \<Rightarrow> 4 * sum_list (map (\<lambda>f. length f + 1) fs)
     | Inr (Inl (loads, f)) \<Rightarrow> 4 * (length f + 1) - 1
     | Inr (Inr (loads, v)) \<Rightarrow> 4 * (length v + 1) + 2)", goal_cases)
  case 1
  show ?case by simp
next
  case (2 loads request_body)
  have loop: "(\<Sum>f\<leftarrow>fs'. Suc (length f)) = lst' \<and> lst' \<le> length s"
    if "s = pre @ cs" "i = length pre" "lst \<le> i" "(\<Sum>f\<leftarrow>fs. Suc (length f)) = lst"
       "ThriftParser_split_fields_loop s ops cls dl i cs (fs, d, lst)
          = (fs', d', lst')"
    for s pre cs i lst fs ops cls dl d fs' d' lst'
    using that
  proof (induction cs arbitrary: pre i fs d lst)
    case Nil
    then show ?case by simp
  next
    case (Cons c cs)
    have s': "s = (pre @ [c]) @ cs" "Suc i = length (pre @ [c])" using Cons.prems by simp_all
    have il: "i < length s" using Cons.prems by simp
    show ?case
    proof (cases "c \<notin> set ops \<and> c \<notin> set cls \<and> c = dl \<and> d = 0")
      case True
      then have "ThriftParser_split_fields_step s ops cls dl i c (fs, d, lst)
                   = (fs @ [slice s lst i], d, Suc i)"
        by auto
      then have run: "ThriftParser_split_fields_loop s ops cls dl (Suc i) cs
              (fs @ [slice s lst i], d, Suc i) = (fs', d', lst')"
        using Cons.prems(5) by (simp del: ThriftParser_split_fields_step.simps)
      have "(\<Sum>f\<leftarrow>fs @ [slice s lst i]. Suc (length f)) = Suc i"
        using Cons.prems(3,4) il by (simp add: slice_def)
      from Cons.IH[OF s' _ this run] show ?thesis by simp
    next
      case False
      then have "\<exists>d2. ThriftParser_split_fields_step s ops cls dl i c
                   (fs, d, lst) = (fs, d2, lst)"
        by auto
      then obtain d2 where
        "ThriftParser_split_fields_step s ops cls dl i c (fs, d, lst)
           = (fs, d2, lst)" ..
      then have run: "ThriftParser_split_fields_loop s ops cls dl (Suc i) cs
              (fs, d2, lst) = (fs', d', lst')"
        using Cons.prems(5) by (simp del: ThriftParser_split_fields_step.simps)
      from Cons.IH[OF s' _ Cons.prems(4) run] Cons.prems(3) show ?thesis by simp
    qed
  qed
  have pieces: "(\<Sum>f\<leftarrow>ThriftParser_split_fields_string s ops cls dl.
                   Suc (length f)) = Suc (length s)" for s ops cls dl
  proof -
    obtain fs d l where
      r: "ThriftParser_split_fields_loop s ops cls dl 0 s ([], 0, 0) = (fs, d, l)"
      by (cases "ThriftParser_split_fields_loop s ops cls dl 0 s ([], 0, 0)") auto
    have "(\<Sum>f\<leftarrow>fs. Suc (length f)) = l \<and> l \<le> length s"
      by (rule loop[where pre = "[]" and lst = 0, OF _ _ _ _ r]) simp_all
    then show ?thesis using r by (simp add: ThriftParser_split_fields_string_def)
  qed
  have "length (slice s a b) \<le> length s" for s a b
    by (simp add: slice_def)
  then have "length (clean request_body) \<le> length request_body"
    by (simp add: clean_def split: sum.splits)
  then show ?case by (simp add: pieces)
next
  case (3 loads field_strings x)
  have "Suc (length x) \<le> (\<Sum>f\<leftarrow>fs. Suc (length f))" if "x \<in> set fs" for fs :: "string list"
    using that by (induction fs) auto
  from this[OF 3] show ?case by simp
next
  case (4 loads field_string b)
  have "k < length s" if "index_of c s = Some k" for c s k
    using that by (induction s arbitrary: k) (auto split: if_splits)
  then have "b < length field_string"
    using 4 by (auto simp: str_index_def split: option.splits)
  then show ?case by simp
next
  case (5 loads value_string b ba)
  have "length (slice value_string (Suc b) ba) \<le> length value_string"
    by (simp add: slice_def)
  then show ?case by simp
qed

declare convert.simps [simp del] convert_from_field_strings.simps [simp del]
  get_value.simps [simp del] convert_value_string.simps [simp del]

text \<open>
  A decoder for concrete runs: it agrees with \<open>json.loads\<close> on the three JSON texts
  listed and on every text that is not JSON (such as \<open>hi\<close>, \<open>bad\<close> or \<open>badfield\<close>).
\<close>

definition sample_loads :: "string \<Rightarrow> json option" where
  "sample_loads = map_of
     [(''[1,2,3]'', JList [JInt 1, JInt 2, JInt 3]), (''1'', JInt 1), (''2'', JInt 2)]"


text \<open>
  A parse result for concrete runs: what \<open>parse\<close> returns for a file with the struct
  \<open>A\<close>, the service \<open>S\<close> with the method \<open>void ping()\<close>, and the enum \<open>E\<close>, all of
  them with otherwise empty bodies.
\<close>

definition sample_service :: ThriftService where
  "sample_service =
     \<lparr>v_name = ''S'',
      v_endpoints = [(''ping'', \<lparr>e_return_type = ''void'', e_name = ''ping'', e_fields = [],
                                 e_oneway = []\<rparr>)]\<rparr>"

definition sample_result :: Result where
  "sample_result =
     \<lparr>structs = [(''A'', \<lparr>s_name = ''A'', s_fields = []\<rparr>)],
      services = [(''S'', sample_service)],
      enums = {''E''}\<rparr>"

section \<open>Properties of the parameter-list splitter\<close>

lemma py_join_snoc:
  "py_join sep (xs @ [x]) = (if xs = [] then x else py_join sep xs @ sep @ x)"
  by (induction sep xs rule: py_join.induct) auto

lemma slice_Suc:
  assumes "lst \<le> i" "i < length s"
  shows "slice s lst (Suc i) = slice s lst i @ [s ! i]"
proof -
  have "Suc i - lst = Suc (i - lst)" using assms by simp
  moreover have "i - lst < length (drop lst s)" using assms by simp
  moreover have "drop lst s ! (i - lst) = s ! i" using assms by simp
  ultimately show ?thesis
    unfolding slice_def by (simp add: take_Suc_conv_app_nth)
qed

text \<open>
  The loop invariant: the pieces cut so far, followed by the piece in progress and the
  characters not yet visited, spell the whole input when joined by commas.
\<close>

lemma split_fields_loop_join:
  assumes "s = pre @ cs" "i = length pre" "lst \<le> i"
    and "split_fields_loop s i cs (fs, d, lst) = (fs', d', lst')"
  shows "py_join '','' (fs' @ [drop lst' s]) = py_join '','' (fs @ [slice s lst i]) @ cs"
  using assms
proof (induction cs arbitrary: pre i fs d lst)
  case Nil
  then show ?case by (simp add: slice_def)
next
  case (Cons c cs)
  have c: "s ! i = c" and il: "i < length s" using Cons.prems by simp_all
  have s': "s = (pre @ [c]) @ cs" "Suc i = length (pre @ [c])" using Cons.prems by simp_all
  show ?case
  proof (cases "c = CHR '','' \<and> d = 0")
    case True
    then have "split_fields_loop s (Suc i) cs (fs @ [slice s lst i], d, Suc i) = (fs', d', lst')"
      using Cons.prems(4) by simp
    from Cons.IH[OF s' _ this]
    have "py_join '','' (fs' @ [drop lst' s]) =
          py_join '','' ((fs @ [slice s lst i]) @ [slice s (Suc i) (Suc i)]) @ cs" by simp
    also have "slice s (Suc i) (Suc i) = []" by (simp add: slice_def)
    also have "py_join '','' ((fs @ [slice s lst i]) @ ['''']) =
               py_join '','' (fs @ [slice s lst i]) @ '',''"
      by (subst py_join_snoc) simp
    finally show ?thesis using True by simp
  next
    case False
    then have "\<exists>d2. split_fields_step s i c (fs, d, lst) = (fs, d2, lst)"
      by simp
    then obtain d2 where "split_fields_step s i c (fs, d, lst) = (fs, d2, lst)" ..
    then have "split_fields_loop s (Suc i) cs (fs, d2, lst) = (fs', d', lst')"
      using Cons.prems(4) by simp
    from Cons.IH[OF s' _ this] Cons.prems(3)
    have "py_join '','' (fs' @ [drop lst' s]) = py_join '','' (fs @ [slice s lst (Suc i)]) @ cs"
      by simp
    then show ?thesis using slice_Suc[OF Cons.prems(3) il] c
      by (simp add: py_join_snoc)
  qed
qed

lemma split_fields_string_join: "py_join '','' (split_fields_string s) = s"
proof -
  obtain fs d l where r: "split_fields_loop s 0 s ([], 0, 0) = (fs, d, l)"
    by (cases "split_fields_loop s 0 s ([], 0, 0)") auto
  have "py_join '','' (fs @ [drop l s]) = py_join '','' ([] @ [slice s 0 0]) @ s"
    by (rule split_fields_loop_join[where pre = "[]", OF _ _ _ r]) simp_all
  then show ?thesis using r by (simp add: split_fields_string_def slice_def)
qed

text \<open>
  C6: applied to \<open>a:list<map<string,i32>>,b:2\<close> the parameter-list splitter returns
  exactly the two pieces \<open>a:list<map<string,i32>>\<close> and \<open>b:2\<close>: the comma between the
  angle brackets is met at depth 2 and does not separate.
\<close>

theorem split_fields_string_nested_generics:
  "split_fields_string ''a:list<map<string,i32>>,b:2'' = [''a:list<map<string,i32>>'', ''b:2'']
   \<and> length (split_fields_string ''a:list<map<string,i32>>,b:2'') = 2"
  by (simp add: split_fields_string_def slice_def)

text \<open>
  C10: for every input the splitter returns at least one piece, the empty input gives the
  single empty piece, and joining the pieces with a comma gives the input back.
\<close>

theorem split_fields_string_lossless:
  "split_fields_string s \<noteq> []
   \<and> split_fields_string [] = ['''']
   \<and> py_join '','' (split_fields_string s) = s"
proof -
  have "split_fields_string s \<noteq> []"
    by (simp add: split_fields_string_def split: prod.splits)
  moreover have "split_fields_string [] = ['''']"
    by (simp add: split_fields_string_def)
  ultimately show ?thesis
    by (simp add: split_fields_string_join)
qed

section \<open>Properties of the request body converter\<close>

lemma sequence_Inl_mem: "sequence xs = Inl e \<Longrightarrow> Inl e \<in> set xs"
  by (induction xs rule: sequence.induct) (auto split: sum.splits)

lemma sequence_has_Inl: "Inl e \<in> set xs \<Longrightarrow> \<exists>e'. sequence xs = Inl e'"
  by (induction xs rule: sequence.induct) (auto split: sum.splits)

lemma index_of_None: "c \<notin> set s \<Longrightarrow> index_of c s = None"
  by (induction s) auto

lemma index_of_first: "c \<notin> set pre \<Longrightarrow> index_of c (pre @ c # rest) = Some (length pre)"
  by (induction pre) auto

lemma rindex_of_None: "c \<notin> set s \<Longrightarrow> rindex_of c s = None"
  by (induction s) auto

lemma rindex_of_last: "c \<notin> set post \<Longrightarrow> rindex_of c (xs @ c # post) = Some (length xs)"
  by (induction xs) (auto simp: rindex_of_None)

lemma convert_unfold:
  "convert loads request_body =
     (case sequence (map (\<lambda>field_string.
               case get_value loads field_string of
                 Inl e \<Rightarrow> Inl e
               | Inr v \<Rightarrow> Inr (get_key field_string, v))
            (ThriftParser_split_fields_string (clean request_body) ''(['' ''])'' CHR '','')) of
        Inl e \<Rightarrow> Inl e
      | Inr items \<Rightarrow> Inr (dict_of items))"
  by (simp add: convert.simps convert_from_field_strings.simps)

lemma convert_value_string_no_paren:
  "CHR ''('' \<notin> set v \<Longrightarrow> convert_value_string loads v = Inr (loads_or_raw loads v)"
  by (simp add: convert_value_string.simps str_index_def index_of_None)

lemma get_value_no_colon: "CHR '':'' \<notin> set f \<Longrightarrow> get_value loads f = Inl ValueError"
  by (simp add: get_value.simps str_index_def index_of_None)

text \<open>No exception other than \<open>ValueError\<close> leaves any of the four functions.\<close>

lemma convert_only_ValueError:
  "convert loads s = Inl e \<Longrightarrow> e = ValueError"
  "convert_from_field_strings loads fs = Inl e \<Longrightarrow> e = ValueError"
  "get_value loads f = Inl e \<Longrightarrow> e = ValueError"
  "convert_value_string loads v = Inl e \<Longrightarrow> e = ValueError"
proof (induction loads s and loads fs and loads f and loads v
       arbitrary: e and e and e and e
       rule: convert_convert_from_field_strings_get_value_convert_value_string.induct)
  case (1 loads request_body)
  then show ?case by (simp add: convert.simps)
next
  case (2 loads field_strings)
  from 2(2) obtain e' where
    "sequence (map (\<lambda>field_string.
               case get_value loads field_string of
                 Inl e \<Rightarrow> Inl e
               | Inr v \<Rightarrow> Inr (get_key field_string, v)) field_strings) = Inl e'" and "e' = e"
    by (auto simp: convert_from_field_strings.simps split: sum.splits)
  then obtain x where "x \<in> set field_strings" "get_value loads x = Inl e"
    by (auto dest!: sequence_Inl_mem split: sum.splits)
  then show ?case using 2(1) by blast
next
  case (3 loads field_string)
  then show ?case
    by (auto simp: get_value.simps str_index_def split: sum.splits option.splits)
next
  case (4 loads value_string)
  then show ?case
    by (auto simp: convert_value_string.simps str_index_def str_rindex_def
             split: sum.splits option.splits py_error.splits)
qed

text \<open>
  C1: if \<open>json.loads\<close> decodes \<open>[1,2,3]\<close> as the list of 1, 2 and 3 and rejects
  \<open>hi\<close>, then \<open>convert\<close> of \<open>Req(ids:[1,2,3],note:hi)\<close> is the dictionary with \<open>ids\<close>
  bound to that list and \<open>note\<close> bound to the text \<open>hi\<close>.  On the way the wrapper is
  stripped and the cleaned text is cut at its one comma outside the brackets.
\<close>

theorem convert_ids_note:
  assumes "loads ''[1,2,3]'' = Some (JList [JInt 1, JInt 2, JInt 3])"
    and "loads ''hi'' = None"
  shows "clean ''Req(ids:[1,2,3],note:hi)'' = ''ids:[1,2,3],note:hi''
    \<and> ThriftParser_split_fields_string ''ids:[1,2,3],note:hi'' ''(['' ''])'' CHR '',''
        = [''ids:[1,2,3]'', ''note:hi'']
    \<and> convert loads ''Req(ids:[1,2,3],note:hi)''
        = Inr [(''ids'', PyJson (JList [JInt 1, JInt 2, JInt 3])), (''note'', PyStr ''hi'')]"
proof -
  have cl: "clean ''Req(ids:[1,2,3],note:hi)'' = ''ids:[1,2,3],note:hi''"
    by code_simp
  have sp: "ThriftParser_split_fields_string ''ids:[1,2,3],note:hi'' ''(['' ''])'' CHR '',''
              = [''ids:[1,2,3]'', ''note:hi'']"
    by code_simp
  have keys: "get_key ''ids:[1,2,3]'' = ''ids''" "get_key ''note:hi'' = ''note''"
    by code_simp+
  have colons: "str_index ''ids:[1,2,3]'' CHR '':'' = Inr 3"
    "str_index ''note:hi'' CHR '':'' = Inr 4"
    by code_simp+
  have v1: "get_value loads ''ids:[1,2,3]'' = Inr (PyJson (JList [JInt 1, JInt 2, JInt 3]))"
    using assms(1)
    by (simp add: get_value.simps colons convert_value_string_no_paren loads_or_raw_def)
  have v2: "get_value loads ''note:hi'' = Inr (PyStr ''hi'')"
    using assms(2)
    by (simp add: get_value.simps colons convert_value_string_no_paren loads_or_raw_def)
  have "convert loads ''Req(ids:[1,2,3],note:hi)''
          = Inr [(''ids'', PyJson (JList [JInt 1, JInt 2, JInt 3])), (''note'', PyStr ''hi'')]"
    by (simp add: convert_unfold cl sp v1 v2 keys dict_of_def)
  then show ?thesis using cl sp by simp
qed

theorem convert_ids_note_witness:
  "sample_loads ''[1,2,3]'' = Some (JList [JInt 1, JInt 2, JInt 3])
   \<and> sample_loads ''hi'' = None
   \<and> convert sample_loads ''Req(ids:[1,2,3],note:hi)''
        = Inr [(''ids'', PyJson (JList [JInt 1, JInt 2, JInt 3])), (''note'', PyStr ''hi'')]"
proof -
  have h1: "sample_loads ''[1,2,3]'' = Some (JList [JInt 1, JInt 2, JInt 3])"
    by (simp add: sample_loads_def)
  have h2: "sample_loads ''hi'' = None"
    by (simp add: sample_loads_def)
  from convert_ids_note[OF h1 h2] h1 h2 show ?thesis by simp
qed

text \<open>
  C7: a value whose first \<open>(\<close> comes before its last \<open>)\<close> is converted by applying
  \<open>convert\<close> to the text strictly between these two; the dictionary that \<open>convert\<close>
  returns is the value.  (When the nested \<open>convert\<close> raises, the text between the
  parentheses is decoded as JSON or kept raw.)  In particular, with \<open>json.loads\<close>
  decoding \<open>1\<close> and \<open>2\<close> as integers, \<open>Req(inner:Inner(x:1,y:2))\<close> becomes the dictionary
  binding \<open>inner\<close> to the dictionary of \<open>x\<close> and \<open>y\<close>.
\<close>

theorem convert_value_string_nested:
  "(\<forall>pre mid post. CHR ''('' \<notin> set pre \<longrightarrow> CHR '')'' \<notin> set post \<longrightarrow>
      convert_value_string loads (pre @ ''('' @ mid @ '')'' @ post)
        = (case convert loads mid of
             Inr d \<Rightarrow> Inr (PyDict d)
           | Inl e \<Rightarrow> Inr (loads_or_raw loads mid)))
   \<and> (loads ''1'' = Some (JInt 1) \<longrightarrow> loads ''2'' = Some (JInt 2) \<longrightarrow>
      convert loads ''Req(inner:Inner(x:1,y:2))''
        = Inr [(''inner'', PyDict [(''x'', PyJson (JInt 1)), (''y'', PyJson (JInt 2))])])"
proof (intro conjI allI impI)
  fix pre mid post
  assume pre: "CHR ''('' \<notin> set pre" and post: "CHR '')'' \<notin> set post"
  let ?v = "pre @ ''('' @ mid @ '')'' @ post"
  have i: "str_index ?v CHR ''('' = Inr (length pre)"
    using index_of_first[OF pre, of "mid @ '')'' @ post"] by (simp add: str_index_def)
  have "rindex_of CHR '')'' ((pre @ ''('' @ mid) @ CHR '')'' # post)
          = Some (length (pre @ ''('' @ mid))"
    by (rule rindex_of_last[OF post])
  then have r: "str_rindex ?v CHR '')'' = Inr (length pre + 1 + length mid)"
    by (simp add: str_rindex_def)
  have s: "slice ?v (length pre + 1) (length pre + 1 + length mid) = mid"
    by (simp add: slice_def)
  show "convert_value_string loads ?v
        = (case convert loads mid of
             Inr d \<Rightarrow> Inr (PyDict d)
           | Inl e \<Rightarrow> Inr (loads_or_raw loads mid))"
  proof (cases "convert loads mid")
    case (Inl e)
    then have "e = ValueError" by (rule convert_only_ValueError(1))
    with Inl show ?thesis
      by (subst convert_value_string.simps) (simp only: i r s sum.case py_error.case Let_def)
  next
    case (Inr d)
    then show ?thesis
      by (subst convert_value_string.simps) (simp only: i r s sum.case Let_def)
  qed
next
  assume l1: "loads ''1'' = Some (JInt 1)" and l2: "loads ''2'' = Some (JInt 2)"
  have cl: "clean ''Req(inner:Inner(x:1,y:2))'' = ''inner:Inner(x:1,y:2)''"
    "clean ''x:1,y:2'' = ''x:1,y:2''"
    by code_simp+
  have sp: "ThriftParser_split_fields_string ''inner:Inner(x:1,y:2)'' ''(['' ''])'' CHR '',''
              = [''inner:Inner(x:1,y:2)'']"
    "ThriftParser_split_fields_string ''x:1,y:2'' ''(['' ''])'' CHR '','' = [''x:1'', ''y:2'']"
    by code_simp+
  have keys: "get_key ''inner:Inner(x:1,y:2)'' = ''inner''" "get_key ''x:1'' = ''x''"
    "get_key ''y:2'' = ''y''"
    by code_simp+
  have colons: "str_index ''inner:Inner(x:1,y:2)'' CHR '':'' = Inr 5"
    "str_index ''x:1'' CHR '':'' = Inr 1" "str_index ''y:2'' CHR '':'' = Inr 1"
    by code_simp+
  have parens: "str_index ''Inner(x:1,y:2)'' CHR ''('' = Inr 5"
    "str_rindex ''Inner(x:1,y:2)'' CHR '')'' = Inr 13"
    "slice ''Inner(x:1,y:2)'' (5 + 1) 13 = ''x:1,y:2''"
    by code_simp+
  have vx: "get_value loads ''x:1'' = Inr (PyJson (JInt 1))"
    using l1 by (simp add: get_value.simps colons convert_value_string_no_paren loads_or_raw_def)
  have vy: "get_value loads ''y:2'' = Inr (PyJson (JInt 2))"
    using l2 by (simp add: get_value.simps colons convert_value_string_no_paren loads_or_raw_def)
  have inner: "convert loads ''x:1,y:2'' = Inr [(''x'', PyJson (JInt 1)), (''y'', PyJson (JInt 2))]"
    by (simp add: convert_unfold cl sp vx vy keys dict_of_def)
  have "convert_value_string loads ''Inner(x:1,y:2)''
          = Inr (PyDict [(''x'', PyJson (JInt 1)), (''y'', PyJson (JInt 2))])"
    by (subst convert_value_string.simps) (simp only: parens inner sum.case Let_def)
  then have vi: "get_value loads ''inner:Inner(x:1,y:2)''
          = Inr (PyDict [(''x'', PyJson (JInt 1)), (''y'', PyJson (JInt 2))])"
    by (simp add: get_value.simps colons)
  show "convert loads ''Req(inner:Inner(x:1,y:2))''
        = Inr [(''inner'', PyDict [(''x'', PyJson (JInt 1)), (''y'', PyJson (JInt 2))])]"
    by (simp add: convert_unfold cl sp vi keys dict_of_def)
qed

theorem convert_value_string_nested_witness:
  "CHR ''('' \<notin> set ''Inner'' \<and> CHR '')'' \<notin> set []
   \<and> convert_value_string sample_loads (''Inner'' @ ''('' @ ''x:1,y:2'' @ '')'' @ [])
       = Inr (PyDict [(''x'', PyJson (JInt 1)), (''y'', PyJson (JInt 2))])
   \<and> sample_loads ''1'' = Some (JInt 1) \<and> sample_loads ''2'' = Some (JInt 2)
   \<and> convert sample_loads ''Req(inner:Inner(x:1,y:2))''
       = Inr [(''inner'', PyDict [(''x'', PyJson (JInt 1)), (''y'', PyJson (JInt 2))])]"
proof -
  have h: "CHR ''('' \<notin> set ''Inner''" "CHR '')'' \<notin> set []"
    by simp_all
  have l: "sample_loads ''1'' = Some (JInt 1)" "sample_loads ''2'' = Some (JInt 2)"
    by (simp_all add: sample_loads_def)
  have c: "convert sample_loads ''x:1,y:2''
             = Inr [(''x'', PyJson (JInt 1)), (''y'', PyJson (JInt 2))]"
    by code_simp
  from convert_value_string_nested[of sample_loads]
  have a: "convert_value_string sample_loads (''Inner'' @ ''('' @ ''x:1,y:2'' @ '')'' @ [])
             = (case convert sample_loads ''x:1,y:2'' of
                  Inr d \<Rightarrow> Inr (PyDict d)
                | Inl e \<Rightarrow> Inr (loads_or_raw sample_loads ''x:1,y:2''))"
    and b: "convert sample_loads ''Req(inner:Inner(x:1,y:2))''
             = Inr [(''inner'', PyDict [(''x'', PyJson (JInt 1)), (''y'', PyJson (JInt 2))])]"
    using h l by blast+
  from a c have "convert_value_string sample_loads (''Inner'' @ ''('' @ ''x:1,y:2'' @ '')'' @ [])
       = Inr (PyDict [(''x'', PyJson (JInt 1)), (''y'', PyJson (JInt 2))])"
    by (simp only: sum.case)
  with b h l show ?thesis by blast
qed

text \<open>
  C8, as the code has it: when one of the field substrings into which \<open>convert\<close> splits
  its cleaned argument has no colon, \<open>convert\<close> fails with \<open>ValueError\<close>, whatever the
  other fields are; in particular \<open>convert\<close> of \<open>badfield\<close> fails.
\<close>

theorem convert_missing_colon_fails:
  "(\<forall>request_body f.
       f \<in> set (ThriftParser_split_fields_string (clean request_body) ''(['' ''])'' CHR '','')
       \<longrightarrow> CHR '':'' \<notin> set f
       \<longrightarrow> convert loads request_body = Inl ValueError)
   \<and> convert loads ''badfield'' = Inl ValueError"
proof -
  have general: "convert loads request_body = Inl ValueError"
    if f: "f \<in> set (ThriftParser_split_fields_string (clean request_body) ''(['' ''])'' CHR '','')"
      and colon: "CHR '':'' \<notin> set f"
    for request_body f
  proof -
    let ?g = "\<lambda>field_string. case get_value loads field_string of
                 Inl e \<Rightarrow> (Inl e :: py_error + string \<times> py_value)
               | Inr v \<Rightarrow> Inr (get_key field_string, v)"
    let ?fs = "ThriftParser_split_fields_string (clean request_body) ''(['' ''])'' CHR '',''"
    have gf: "Inl ValueError = ?g f"
      using colon by (simp add: get_value_no_colon)
    have "Inl ValueError \<in> ?g ` set ?fs"
      using gf f by (rule image_eqI)
    then have "Inl ValueError \<in> set (map ?g ?fs)"
      by (simp only: set_map)
    then have "\<exists>e. sequence (map ?g ?fs) = Inl e"
      by (rule sequence_has_Inl)
    then obtain e where e: "sequence (map ?g ?fs) = Inl e" ..
    have "convert loads request_body = Inl e"
      by (subst convert_unfold) (simp only: e sum.case)
    moreover from this have "e = ValueError"
      by (rule convert_only_ValueError(1))
    ultimately show ?thesis by simp
  qed
  have cl: "clean ''badfield'' = ''badfield''"
    by code_simp
  have sp: "ThriftParser_split_fields_string ''badfield'' ''(['' ''])'' CHR '','' = [''badfield'']"
    by code_simp
  have "convert loads ''badfield'' = Inl ValueError"
    by (rule general[of "''badfield''"]) (simp_all add: cl sp)
  with general show ?thesis by blast
qed

theorem convert_missing_colon_fails_witness:
  "''x:1'' \<in> set (ThriftParser_split_fields_string (clean ''Req(x:1,junk)'') ''(['' ''])'' CHR '','')
   \<and> ''junk'' \<in> set (ThriftParser_split_fields_string (clean ''Req(x:1,junk)'') ''(['' ''])'' CHR '','')
   \<and> CHR '':'' \<notin> set ''junk''
   \<and> convert sample_loads ''Req(x:1,junk)'' = Inl ValueError"
proof -
  have sp: "ThriftParser_split_fields_string (clean ''Req(x:1,junk)'') ''(['' ''])'' CHR '',''
              = [''x:1'', ''junk'']"
    by code_simp
  have m: "''junk'' \<in> set (ThriftParser_split_fields_string (clean ''Req(x:1,junk)'')
                             ''(['' ''])'' CHR '','')"
    by (simp add: sp)
  have c: "CHR '':'' \<notin> set ''junk''"
    by simp
  from convert_missing_colon_fails[of sample_loads] m c
  have "convert sample_loads ''Req(x:1,junk)'' = Inl ValueError"
    by blast
  then show ?thesis using m c by (simp add: sp)
qed

text \<open>
  The claim C8 as written does not hold below the top level: the field \<open>bad\<close> of the
  nested literal in \<open>a:X(bad)\<close> has no colon and \<open>convert\<close> of \<open>bad\<close> alone fails, yet
  \<open>convert\<close> of \<open>a:X(bad)\<close> returns a dictionary, with \<open>a\<close> bound to the text \<open>bad\<close>.
\<close>

theorem convert_nested_missing_colon_counterexample:
  "CHR '':'' \<notin> set ''bad''
   \<and> ThriftParser_split_fields_string (clean ''bad'') ''(['' ''])'' CHR '','' = [''bad'']
   \<and> convert sample_loads ''bad'' = Inl ValueError
   \<and> convert sample_loads ''a:X(bad)'' = Inr [(''a'', PyStr ''bad'')]"
  by code_simp

section \<open>Lookups in a parse result\<close>

text \<open>
  C9: in a parse result, looking up the fields of a struct name that is absent fails with
  \<open>KeyError\<close> carrying that name; looking up the fields of an endpoint fails with
  \<open>KeyError\<close> carrying the service name when the service is absent, and carrying the
  method name when the service is present and the method is absent.  The result is only
  read: a name that is present is found, whichever lookups have failed.
\<close>

theorem lookups_fail_with_KeyError:
  "(struct_name \<notin> fst ` set (structs r) \<longrightarrow>
      get_fields_for_struct_name (Some r) struct_name = Inl (KeyError struct_name))
   \<and> (service_name \<notin> fst ` set (services r) \<longrightarrow>
      get_fields_for_endpoint (Some r) service_name method_name = Inl (KeyError service_name))
   \<and> (map_of (services r) service_name = Some service \<longrightarrow>
      method_name \<notin> fst ` set (v_endpoints service) \<longrightarrow>
      get_fields_for_endpoint (Some r) service_name method_name = Inl (KeyError method_name))
   \<and> (map_of (structs r) present = Some struct \<longrightarrow>
      get_fields_for_struct_name (Some r) present = Inr (s_fields struct))
   \<and> (map_of (services r) service_name = Some service \<longrightarrow>
      map_of (v_endpoints service) method_name = Some endpoint \<longrightarrow>
      get_fields_for_endpoint (Some r) service_name method_name = Inr (e_fields endpoint))"
proof -
  have absent: "map_of d k = None" if "k \<notin> fst ` set d" for d :: "(string \<times> 'v) list" and k
    using that by (simp add: map_of_eq_None_iff)
  show ?thesis
    by (auto simp: get_fields_for_struct_name_def get_fields_for_endpoint_def dict_get_def
             dest: absent)
qed

theorem lookups_fail_with_KeyError_witness:
  "''Missing'' \<notin> fst ` set (structs sample_result)
   \<and> get_fields_for_struct_name (Some sample_result) ''Missing'' = Inl (KeyError ''Missing'')
   \<and> ''T'' \<notin> fst ` set (services sample_result)
   \<and> get_fields_for_endpoint (Some sample_result) ''T'' ''ping'' = Inl (KeyError ''T'')
   \<and> ''pong'' \<notin> fst ` set (v_endpoints sample_service)
   \<and> get_fields_for_endpoint (Some sample_result) ''S'' ''pong'' = Inl (KeyError ''pong'')
   \<and> get_fields_for_struct_name (Some sample_result) ''A'' = Inr []
   \<and> get_fields_for_endpoint (Some sample_result) ''S'' ''ping'' = Inr []"
proof -
  have a: "''Missing'' \<notin> fst ` set (structs sample_result)"
    by (simp add: sample_result_def)
  have b: "''T'' \<notin> fst ` set (services sample_result)"
    by (simp add: sample_result_def)
  have c: "map_of (services sample_result) ''S'' = Some sample_service"
    by (simp add: sample_result_def)
  have d: "''pong'' \<notin> fst ` set (v_endpoints sample_service)"
    by (simp add: sample_service_def)
  have e: "map_of (structs sample_result) ''A'' = Some \<lparr>s_name = ''A'', s_fields = []\<rparr>"
    by (simp add: sample_result_def)
  have f: "map_of (v_endpoints sample_service) ''ping''
             = Some \<lparr>e_return_type = ''void'', e_name = ''ping'', e_fields = [], e_oneway = []\<rparr>"
    by (simp add: sample_service_def)
  have 1: "get_fields_for_struct_name (Some sample_result) ''Missing'' = Inl (KeyError ''Missing'')"
    using lookups_fail_with_KeyError[of "''Missing''" sample_result] a by blast
  have 2: "get_fields_for_endpoint (Some sample_result) ''T'' ''ping'' = Inl (KeyError ''T'')"
    using lookups_fail_with_KeyError[of _ sample_result "''T''" "''ping''"] b by blast
  have 3: "get_fields_for_endpoint (Some sample_result) ''S'' ''pong'' = Inl (KeyError ''pong'')"
    using lookups_fail_with_KeyError[of _ sample_result "''S''" "''pong''" sample_service] c d
    by blast
  have 4: "get_fields_for_struct_name (Some sample_result) ''A'' = Inr []"
    using lookups_fail_with_KeyError[of _ sample_result _ _ _ "''A''"
            "\<lparr>s_name = ''A'', s_fields = []\<rparr>"] e
    by simp
  have 5: "get_fields_for_endpoint (Some sample_result) ''S'' ''ping'' = Inr []"
    using lookups_fail_with_KeyError[of _ sample_result "''S''" "''ping''" sample_service _ _
            "\<lparr>e_return_type = ''void'', e_name = ''ping'', e_fields = [], e_oneway = []\<rparr>"] c f
    by simp
  from a b d 1 2 3 4 5 show ?thesis by blast
qed

section \<open>Where the parser departs from its description\<close>

text \<open>
  C2 does not hold of the code: group 1 of \<open>fields_regex\<close> is a single character, so a
  field line with the two-digit index \<open>10\<close> matches nowhere and yields no field, in a
  struct body as in a parameter list, while the same line with the index \<open>1\<close> yields its
  field with the index kept.
\<close>

theorem fields_regex_two_digit_index_unmatched:
  "fields_findall ''10: i32 a\<newline>'' = []
   \<and> parse_fields_from_struct_definition ''struct S {\<newline>  10: i32 a\<newline>}'' = []
   \<and> parse_fields_from_fields_string ''10: i32 a'' = []
   \<and> fields_findall ''1: i32 a\<newline>'' = [(''1'', '''', ''i32'', ''a'', '''')]
   \<and> parse_fields_from_struct_definition ''struct S {\<newline>  1: i32 a\<newline>}''
       = [(''a'', \<lparr>f_index = ''1'', f_field_type = ''i32'', f_name = ''a'',
                     f_oneway = False, f_default = None\<rparr>)]"
  by code_simp

text \<open>
  C3 does not hold of the code: the qualifier is matched by group 2 of \<open>fields_regex\<close>,
  but \<open>_construct_field_from_field_match\<close> only compares it with \<open>'oneway'\<close>: the field
  built from a match does not depend on whether the qualifier is \<open>required\<close>,
  \<open>optional\<close> or missing, and the three fields of the struct below differ in index and
  name only.
\<close>

theorem field_qualifier_is_dropped:
  "construct_field_from_field_match (i, ''required'', t, n, d)
     = construct_field_from_field_match (i, ''optional'', t, n, d)
   \<and> construct_field_from_field_match (i, ''required'', t, n, d)
     = construct_field_from_field_match (i, [], t, n, d)
   \<and> fields_findall ''1: required i32 a\<newline>'' = [(''1'', ''required'', ''i32'', ''a'', [])]
   \<and> fields_findall ''1: optional i32 a\<newline>'' = [(''1'', ''optional'', ''i32'', ''a'', [])]
   \<and> parse_fields_from_struct_definition
         ''struct S {\<newline>  1: required i32 a\<newline>  2: optional i32 b\<newline>  3: i32 c\<newline>}''
       = [(''a'', \<lparr>f_index = ''1'', f_field_type = ''i32'', f_name = ''a'',
                     f_oneway = False, f_default = None\<rparr>),
          (''b'', \<lparr>f_index = ''2'', f_field_type = ''i32'', f_name = ''b'',
                     f_oneway = False, f_default = None\<rparr>),
          (''c'', \<lparr>f_index = ''3'', f_field_type = ''i32'', f_name = ''c'',
                     f_oneway = False, f_default = None\<rparr>)]
   \<and> parse_fields_from_fields_string ''1: required i32 a, 2: optional i32 b''
       = [\<lparr>f_index = ''1'', f_field_type = ''i32'', f_name = ''a'',
           f_oneway = False, f_default = None\<rparr>,
          \<lparr>f_index = ''2'', f_field_type = ''i32'', f_name = ''b'',
           f_oneway = False, f_default = None\<rparr>]"
proof -
  have "construct_field_from_field_match (i, ''required'', t, n, d)
          = construct_field_from_field_match (i, ''optional'', t, n, d)"
    and "construct_field_from_field_match (i, ''required'', t, n, d)
          = construct_field_from_field_match (i, [], t, n, d)"
    by (simp_all add: construct_field_from_field_match_def)
  moreover have "fields_findall ''1: required i32 a\<newline>''
                   = [(''1'', ''required'', ''i32'', ''a'', [])]"
    by code_simp
  moreover have "fields_findall ''1: optional i32 a\<newline>''
                   = [(''1'', ''optional'', ''i32'', ''a'', [])]"
    by code_simp
  moreover have "parse_fields_from_struct_definition
         ''struct S {\<newline>  1: required i32 a\<newline>  2: optional i32 b\<newline>  3: i32 c\<newline>}''
       = [(''a'', \<lparr>f_index = ''1'', f_field_type = ''i32'', f_name = ''a'',
                     f_oneway = False, f_default = None\<rparr>),
          (''b'', \<lparr>f_index = ''2'', f_field_type = ''i32'', f_name = ''b'',
                     f_oneway = False, f_default = None\<rparr>),
          (''c'', \<lparr>f_index = ''3'', f_field_type = ''i32'', f_name = ''c'',
                     f_oneway = False, f_default = None\<rparr>)]"
    by code_simp
  moreover have "parse_fields_from_fields_string ''1: required i32 a, 2: optional i32 b''
       = [\<lparr>f_index = ''1'', f_field_type = ''i32'', f_name = ''a'',
           f_oneway = False, f_default = None\<rparr>,
          \<lparr>f_index = ''2'', f_field_type = ''i32'', f_name = ''b'',
           f_oneway = False, f_default = None\<rparr>]"
    by code_simp
  ultimately show ?thesis by blast
qed

text \<open>
  C4 does not hold of the code: an empty parameter substring is dropped without error,
  but a service body in which no line matches the endpoint pattern makes
  \<open>_parse_endpoints_from_service_definition\<close>, and with it \<open>parse\<close>, raise \<open>ValueError\<close>.
\<close>

theorem service_without_endpoints_raises:
  "parse_fields_from_fields_string '''' = []
   \<and> services_findall ''service S {\<newline>}\<newline>'' = [(''service S {\<newline>}'', ''S'')]
   \<and> endpoints_findall ''service S {\<newline>}'' = []
   \<and> parse_endpoints_from_service_definition ''service S {\<newline>}'' = Inl ValueError
   \<and> parse ''service S {\<newline>}\<newline>'' = Inl ValueError"
  by code_simp

text \<open>
  C5 does not hold of the code: the first text below has three disjoint top-level blocks
  with distinct names, and each pattern finds its block, but \<open>parse\<close> raises
  \<open>ValueError\<close> instead of returning three entries, because the service has no endpoint
  line.  With one endpoint line in the service the three entries are returned.
\<close>

theorem three_blocks_not_extracted:
  "structs_findall ''struct A {\<newline>}\<newline>service S {\<newline>}\<newline>enum E {\<newline>}\<newline>''
     = [(''struct A {\<newline>}'', ''A'')]
   \<and> services_findall ''struct A {\<newline>}\<newline>service S {\<newline>}\<newline>enum E {\<newline>}\<newline>''
     = [(''service S {\<newline>}'', ''S'')]
   \<and> enums_findall ''struct A {\<newline>}\<newline>service S {\<newline>}\<newline>enum E {\<newline>}\<newline>''
     = [''E'']
   \<and> parse ''struct A {\<newline>}\<newline>service S {\<newline>}\<newline>enum E {\<newline>}\<newline>''
     = Inl ValueError
   \<and> parse ''struct A {\<newline>}\<newline>service S {\<newline> void ping()\<newline>}\<newline>enum E {\<newline>}\<newline>''
     = Inr sample_result"
  by code_simp

end
